theory Spec2Isabelle
  imports Main "HOL-Library.Word"
begin

unbundle bit_operations_syntax

section \<open>Host values: strings, numbers, variants and arrays\<close>

text \<open>
  The extension (\<^verbatim>\<open>hphp/runtime/ext/xdebug/ext_xdebug.cpp\<close>) appends numbers to a
  \<^verbatim>\<open>StringBuffer\<close> in decimal (\<^verbatim>\<open>buf.append(int64_t)\<close>) and, for the random number,
  in lower-case hexadecimal (\<^verbatim>\<open>buf.printf("%lx", (uint64_t) ...)\<close>).
\<close>

fun show_nat :: "nat \<Rightarrow> string" where
  "show_nat n =
     (if n < 10 then [''0123456789'' ! n]
      else show_nat (n div 10) @ [''0123456789'' ! (n mod 10)])"

declare show_nat.simps [simp del]

definition show_int :: "int \<Rightarrow> string" where
  "show_int i = (if i < 0 then CHR ''-'' # show_nat (nat (- i)) else show_nat (nat i))"

fun hex_nat :: "nat \<Rightarrow> string" where
  "hex_nat n =
     (if n < 16 then [''0123456789abcdef'' ! n]
      else hex_nat (n div 16) @ [''0123456789abcdef'' ! (n mod 16)])"

declare hex_nat.simps [simp del]

text \<open>
  A \<^verbatim>\<open>Variant\<close> of the runtime, restricted to the kinds of value the extension
  tells apart: null, boolean, integer, string and array. An array is an association
  list from keys to values; a key is held in its canonical string form (the integer key
  \<open>0\<close> and the string key \<^verbatim>\<open>"0"\<close> are one key in the runtime as well). Doubles,
  objects and resources are left out: their string conversion is floating-point
  formatting or user code.
\<close>

datatype variant =
    VNull
  | VBool bool
  | VInt int
  | VStr string
  | VArr "(string \<times> variant) list"

type_synonym array = "(string \<times> variant) list"

fun isString :: "variant \<Rightarrow> bool" where
  "isString (VStr s) = True"
| "isString v = False"

text \<open>\<^verbatim>\<open>Variant::toArray\<close>: null is the empty array, an array is itself, any other
  value \<open>v\<close> is the one-element array \<^verbatim>\<open>[0 => v]\<close>.\<close>

fun toArray :: "variant \<Rightarrow> array" where
  "toArray VNull = []"
| "toArray (VArr a) = a"
| "toArray v = [(''0'', v)]"

text \<open>\<^verbatim>\<open>Variant::toString\<close>.\<close>

fun toString :: "variant \<Rightarrow> string" where
  "toString VNull = []"
| "toString (VBool b) = (if b then ''1'' else [])"
| "toString (VInt i) = show_int i"
| "toString (VStr s) = s"
| "toString (VArr a) = ''Array''"

text \<open>\<^verbatim>\<open>ArrayData::get\<close> and \<^verbatim>\<open>Array::operator[]\<close> on a constant array: the value
  stored under the key, null when there is none. \<^verbatim>\<open>exists\<close> is true for a key that is
  present, whatever its value.\<close>

definition array_get :: "array \<Rightarrow> string \<Rightarrow> variant" where
  "array_get a k = (case map_of a k of None \<Rightarrow> VNull | Some v \<Rightarrow> v)"

definition array_exists :: "array \<Rightarrow> string \<Rightarrow> bool" where
  "array_exists a k = (case map_of a k of None \<Rightarrow> False | Some v \<Rightarrow> True)"

section \<open>Globals of the translation unit\<close>

text \<open>The names of the superglobals, as the source spells them (lines 56-60).\<close>

definition s_SERVER :: string where "s_SERVER = ''_SERVER''"
definition s_COOKIE :: string where "s_COOKIE = ''_COOOKIE''"
definition s_GET :: string where "s_GET = ''_GET''"
definition s_POST :: string where "s_POST = ''_POST''"

text \<open>Keys in \<^verbatim>\<open>$_SERVER\<close> used by \<^verbatim>\<open>format_filename\<close> (lines 83-88).\<close>

definition s_HTTP_HOST :: string where "s_HTTP_HOST = ''HTTP_HOST''"
definition s_REQUEST_URI :: string where "s_REQUEST_URI = ''REQUEST_URI''"
definition s_SCRIPT_NAME :: string where "s_SCRIPT_NAME = ''SCRIPT_NAME''"
definition s_UNIQUE_ID :: string where "s_UNIQUE_ID = ''UNIQUE_ID''"
definition s_SESSION_NAME :: string where "s_SESSION_NAME = ''session.name''"

section \<open>The filename templater\<close>

text \<open>\<^verbatim>\<open>replace_special_chars\<close> (lines 93-112): each of \<^verbatim>\<open>/ \ . ? & +\<close> and the
  space becomes an underscore.\<close>

definition special_char :: "char \<Rightarrow> bool" where
  "special_char c =
     (c = CHR ''/'' \<or> c = CHR 0x5C \<or> c = CHR ''.'' \<or> c = CHR ''?'' \<or>
      c = CHR ''&'' \<or> c = CHR ''+'' \<or> c = CHR 0x20)"

definition replace_special_chars :: "string \<Rightarrow> string" where
  "replace_special_chars str = map (\<lambda>c. if special_char c then CHR ''_'' else c) str"

text \<open>
  What \<^verbatim>\<open>format_filename\<close> reads from its surroundings: the global variables
  (\<^verbatim>\<open>get_global_variables()\<close>), the ini settings (\<^verbatim>\<open>IniSetting::Get\<close>), the crc32 of
  the working directory (\<^verbatim>\<open>f_crc32(g_context->getCwd())\<close>), the process id, the
  results of successive \<^verbatim>\<open>f_rand()\<close> calls (a 64-bit integer each, indexed by the
  number of calls made before), \<^verbatim>\<open>time(nullptr)\<close> (\<open>-1\<close> on failure) and
  \<^verbatim>\<open>gettimeofday\<close> (seconds and microseconds, \<open>None\<close> on failure), and whether the
  execution context is nested (\<^verbatim>\<open>g_context->isNested()\<close>).
\<close>

record env =
  global_variables :: array
  ini_settings :: "(string \<times> string) list"
  cwd_crc32 :: int
  getpid :: int
  f_rand :: "nat \<Rightarrow> 64 word"
  time_now :: int
  gettimeofday :: "(int \<times> int) option"
  isNested :: bool

text \<open>
  One directive of the template: the \<^verbatim>\<open>switch (c)\<close> of lines 137-233. The state is
  the buffer and the number of \<^verbatim>\<open>f_rand()\<close> calls made so far. In the case \<^verbatim>\<open>'S'\<close> the
  \<^verbatim>\<open>break\<close> stands inside the \<^verbatim>\<open>if (IniSetting::Get(...))\<close>, so when the setting is not
  there control falls into the case \<^verbatim>\<open>'%'\<close>.
\<close>

fun directive :: "env \<Rightarrow> char \<Rightarrow> string \<times> nat \<Rightarrow> string \<times> nat" where
  "directive e c (buf, n) =
     (if c = CHR ''c'' then (buf @ show_int (cwd_crc32 e), n)
      else if c = CHR ''p'' then (buf @ show_int (getpid e), n)
      else if c = CHR ''r'' then (buf @ hex_nat (unat (f_rand e n)), Suc n)
      else if c = CHR ''s'' then
        (let server = toArray (array_get (global_variables e) s_SERVER) in
         if array_exists server s_SCRIPT_NAME \<and> isString (array_get server s_SCRIPT_NAME)
         then (buf @ replace_special_chars (toString (array_get server s_SCRIPT_NAME)), n)
         else (buf, n))
      else if c = CHR ''t'' then
        (if time_now e \<noteq> - 1 then (buf @ show_int (time_now e), n) else (buf, n))
      else if c = CHR ''u'' then
        (case gettimeofday e of
           Some (sec, usec) \<Rightarrow> (buf @ show_int sec @ ''_'' @ show_int usec, n)
         | None \<Rightarrow> (buf, n))
      else if c = CHR ''H'' then
        (let server = toArray (array_get (global_variables e) s_SERVER) in
         if array_exists server s_HTTP_HOST \<and> isString (array_get server s_HTTP_HOST)
         then (buf @ replace_special_chars (toString (array_get server s_HTTP_HOST)), n)
         else (buf, n))
      else if c = CHR ''R'' then
        (let server = toArray (array_get (global_variables e) s_SERVER) in
         if array_exists (global_variables e) s_REQUEST_URI
         then (buf @ replace_special_chars (toString (array_get server s_REQUEST_URI)), n)
         else (buf, n))
      else if c = CHR ''U'' then
        (let server = toArray (array_get (global_variables e) s_SERVER) in
         if array_exists server s_UNIQUE_ID \<and> isString (array_get server s_UNIQUE_ID)
         then (buf @ replace_special_chars (toString (array_get server s_UNIQUE_ID)), n)
         else (buf, n))
      else if c = CHR ''S'' then
        (case map_of (ini_settings e) s_SESSION_NAME of
           Some session_name \<Rightarrow>
             (let cookies = toArray (array_get (global_variables e) s_COOKIE) in
              if array_exists cookies session_name \<and> isString (array_get cookies session_name)
              then (buf @ replace_special_chars (toString (array_get cookies session_name)), n)
              else (buf, n))
         | None \<Rightarrow> (buf @ ''%'', n))
      else if c = CHR ''%'' then (buf @ ''%'', n)
      else (buf @ [CHR ''%'', c], n))"

declare directive.simps [simp del]

text \<open>
  The scanning loop of lines 129-234. A character other than \<^verbatim>\<open>%\<close>, and any last
  character (\<^verbatim>\<open>pos + 1 == formatlen\<close>), is appended as it is; otherwise the next
  character is consumed (\<^verbatim>\<open>++pos\<close>) and dispatched on.
\<close>

fun format_loop :: "env \<Rightarrow> string \<Rightarrow> string \<times> nat \<Rightarrow> string \<times> nat" where
  "format_loop e [] st = st"
| "format_loop e [c] (buf, n) = (buf @ [c], n)"
| "format_loop e (c # d # cs) (buf, n) =
     (if c \<noteq> CHR ''%'' then format_loop e (d # cs) (buf @ [c], n)
      else format_loop e cs (directive e d (buf, n)))"

text \<open>\<^verbatim>\<open>format_filename\<close> (lines 116-241): the directory and a slash when a directory
  is passed, the resolved template, and the suffix \<^verbatim>\<open>.xt\<close> when asked for. The second
  component is the number of \<^verbatim>\<open>f_rand()\<close> calls made when it returns.\<close>

definition format_filename ::
    "env \<Rightarrow> nat \<Rightarrow> string option \<Rightarrow> string \<Rightarrow> bool \<Rightarrow> string \<times> nat" where
  "format_filename e n dir formatFile addSuffix =
     (let buf0 = (case dir of None \<Rightarrow> [] | Some d \<Rightarrow> d @ ''/'');
          (buf1, n1) = format_loop e formatFile (buf0, n)
      in (if addSuffix then buf1 @ ''.xt'' else buf1, n1))"

section \<open>Configuration\<close>

text \<open>
  The static members of \<^verbatim>\<open>XDebugExtension\<close> the functions below read. The option
  table (\<^verbatim>\<open>XDEBUG_CFG\<close>, \<^verbatim>\<open>XDEBUG_PROF_CFG\<close>) and the option constants
  (\<^verbatim>\<open>k_XDEBUG_TRACE_APPEND\<close> and the others) are declared in \<^verbatim>\<open>ext_xdebug.h\<close>; the
  constants are taken as parameters here, so nothing below depends on their values. The
  last six fields are the enable flags and trigger keys the policy functions of the header
  consult.
\<close>

record option_bits =
  k_XDEBUG_TRACE_APPEND :: "64 word"
  k_XDEBUG_TRACE_COMPUTERIZED :: "64 word"
  k_XDEBUG_TRACE_HTML :: "64 word"
  k_XDEBUG_TRACE_NAKED_FILENAME :: "64 word"
  k_XDEBUG_PROFILE_APPEND :: "64 word"

record config =
  Enable :: bool
  TraceOptions :: int
  TraceFormat :: int
  TraceOutputDir :: string
  TraceOutputName :: string
  ProfilerAppend :: bool
  ProfilerOutputDir :: string
  ProfilerOutputName :: string
  CollectMemory :: bool
  CollectTime :: bool
  bits :: option_bits
  ProfilerEnable :: bool
  ProfilerEnableTrigger :: bool
  ProfilerTrigger :: string
  AutoTrace :: bool
  TraceEnableTrigger :: bool
  TraceTrigger :: string

text \<open>\<^verbatim>\<open>XDebugExtension::isTriggerSet\<close> (lines 605-611).\<close>

definition isTriggerSet :: "env \<Rightarrow> string \<Rightarrow> bool" where
  "isTriggerSet e trigger =
     (let globals = global_variables e;
          get = toArray (array_get globals s_GET);
          post = toArray (array_get globals s_POST);
          cookies = toArray (array_get globals s_COOKIE)
      in array_exists cookies trigger \<or> array_exists get trigger \<or> array_exists post trigger)"

text \<open>
  Modelled from the spec: \<^verbatim>\<open>XDebugExtension::isProfilingNeeded\<close>,
  \<^verbatim>\<open>isTracingNeeded\<close> and \<^verbatim>\<open>isProfilerNeeded\<close> are defined in \<^verbatim>\<open>ext_xdebug.h\<close>, which
  is not among the sources. The spec: configuration indicates that profiling is needed
  "through either explicit enable flags or request-trigger inspection (presence of a
  configured trigger key in the GET/POST/COOKIE ambient maps)"; the trigger inspection
  is \<open>isTriggerSet\<close> above.
\<close>

definition isProfilingNeeded :: "config \<Rightarrow> env \<Rightarrow> bool" where
  "isProfilingNeeded cfg e =
     (ProfilerEnable cfg \<or> (ProfilerEnableTrigger cfg \<and> isTriggerSet e (ProfilerTrigger cfg)))"

definition isTracingNeeded :: "config \<Rightarrow> env \<Rightarrow> bool" where
  "isTracingNeeded cfg e =
     (AutoTrace cfg \<or> (TraceEnableTrigger cfg \<and> isTriggerSet e (TraceTrigger cfg)))"

definition isProfilerNeeded :: "config \<Rightarrow> env \<Rightarrow> bool" where
  "isProfilerNeeded cfg e = (isProfilingNeeded cfg e \<or> isTracingNeeded cfg e)"

section \<open>The profiler object and its factory\<close>

text \<open>
  Modelled from the spec: \<^verbatim>\<open>XDebugProfiler\<close> (\<^verbatim>\<open>xdebug_profiler.h\<close>) is not among the
  sources. The spec (section 4.3): one tracing and one profiling session at a time;
  \<^verbatim>\<open>enableTracing\<close> and \<^verbatim>\<open>enableProfiling\<close> are no-ops when already enabled;
  \<^verbatim>\<open>disableTracing\<close> when not tracing is a no-op; the filename getters return the last path
  passed to the corresponding enable call; \<^verbatim>\<open>isCollecting\<close> is true if tracing or
  profiling is active. \<^verbatim>\<open>beginFrame\<close> is only counted.
\<close>

record XDebugProfiler =
  tracingEnabled :: bool
  tracingFilename :: string
  tracingOpts :: "64 word"
  profilingEnabled :: bool
  profilingFilename :: string
  profilingOpts :: "64 word"
  collectMemory :: bool
  collectTime :: bool
  framesBegun :: nat

definition new_XDebugProfiler :: XDebugProfiler where
  "new_XDebugProfiler =
     \<lparr>tracingEnabled = False, tracingFilename = [], tracingOpts = 0,
      profilingEnabled = False, profilingFilename = [], profilingOpts = 0,
      collectMemory = False, collectTime = False, framesBegun = 0\<rparr>"

definition isTracing :: "XDebugProfiler \<Rightarrow> bool" where
  "isTracing p = tracingEnabled p"

definition isProfiling :: "XDebugProfiler \<Rightarrow> bool" where
  "isProfiling p = profilingEnabled p"

definition isCollecting :: "XDebugProfiler \<Rightarrow> bool" where
  "isCollecting p = (isTracing p \<or> isProfiling p)"

definition getTracingFilename :: "XDebugProfiler \<Rightarrow> string" where
  "getTracingFilename p = tracingFilename p"

definition getProfilingFilename :: "XDebugProfiler \<Rightarrow> string" where
  "getProfilingFilename p = profilingFilename p"

definition enableTracing :: "string \<Rightarrow> 64 word \<Rightarrow> XDebugProfiler \<Rightarrow> XDebugProfiler" where
  "enableTracing path opts p =
     (if tracingEnabled p then p
      else p\<lparr>tracingEnabled := True, tracingFilename := path, tracingOpts := opts\<rparr>)"

definition disableTracing :: "XDebugProfiler \<Rightarrow> XDebugProfiler" where
  "disableTracing p = (if tracingEnabled p then p\<lparr>tracingEnabled := False\<rparr> else p)"

definition enableProfiling :: "string \<Rightarrow> 64 word \<Rightarrow> XDebugProfiler \<Rightarrow> XDebugProfiler" where
  "enableProfiling path opts p =
     (if profilingEnabled p then p
      else p\<lparr>profilingEnabled := True, profilingFilename := path, profilingOpts := opts\<rparr>)"

definition setCollectMemory :: "bool \<Rightarrow> XDebugProfiler \<Rightarrow> XDebugProfiler" where
  "setCollectMemory b p = p\<lparr>collectMemory := b\<rparr>"

definition setCollectTime :: "bool \<Rightarrow> XDebugProfiler \<Rightarrow> XDebugProfiler" where
  "setCollectTime b p = p\<lparr>collectTime := b\<rparr>"

definition beginFrame :: "XDebugProfiler \<Rightarrow> XDebugProfiler" where
  "beginFrame p = p\<lparr>framesBegun := Suc (framesBegun p)\<rparr>"

text \<open>
  Modelled from the spec: \<^verbatim>\<open>ProfilerFactory\<close> is declared outside the sources
  (\<^verbatim>\<open>DECLARE_EXTERN_REQUEST_LOCAL\<close>, line 244). The spec: at most one profiler is bound
  to a thread; \<^verbatim>\<open>start\<close> creates and binds a profiler and fails when another profiler is
  already bound; \<^verbatim>\<open>stop\<close> releases the bound profiler. The factory also keeps the list of
  the successful starts and the stops it has served, newest first: a history the
  properties below refer to, which no operation reads.
\<close>

datatype bound_profiler = NoProfiler | OtherProfiler | XDebug XDebugProfiler

datatype factory_call = Start | Stop

record ProfilerFactory =
  m_profiler :: bound_profiler
  calls :: "factory_call list"

definition factory_start :: "ProfilerFactory \<Rightarrow> bool \<times> ProfilerFactory" where
  "factory_start f =
     (case m_profiler f of
        NoProfiler \<Rightarrow> (True, f\<lparr>m_profiler := XDebug new_XDebugProfiler, calls := Start # calls f\<rparr>)
      | OtherProfiler \<Rightarrow> (False, f)
      | XDebug p \<Rightarrow> (False, f))"

definition factory_stop :: "ProfilerFactory \<Rightarrow> ProfilerFactory" where
  "factory_stop f = f\<lparr>m_profiler := NoProfiler, calls := Stop # calls f\<rparr>"

section \<open>Request state\<close>

text \<open>
  The state the operations share: the two members of \<^verbatim>\<open>XDebugRequestData\<close> (lines
  35-48), the thread's profiler factory, the number of \<^verbatim>\<open>f_rand()\<close> calls made, the
  thread's coverage flag (\<^verbatim>\<open>ti->m_reqInjectionData\<close>) with the coverage data collected
  (\<^verbatim>\<open>ti->m_coverage\<close>, file and line), and the number of notices raised.
\<close>

record world =
  m_profiler_attached :: bool
  m_init_time :: int
  s_profiler_factory :: ProfilerFactory
  rand_calls :: nat
  coverage :: bool
  m_coverage :: "(string \<times> int) list"
  notices :: nat

text \<open>
  What ends an operation early: a failed \<^verbatim>\<open>assert\<close> (the build with assertions aborts
  there), the two \<^verbatim>\<open>raise_error\<close> calls (a fatal error of the request, thrown as an
  exception), and the exception \<^verbatim>\<open>VMSwitchModeBuiltin\<close>. An operation returns the state
  as it is when it returns or throws.
\<close>

datatype error =
    AssertionFailed
  | CouldNotStartProfiler
  | CoverageOptionsNotSupported
  | VMSwitchModeBuiltin

text \<open>\<^verbatim>\<open>xdebug_profiler()\<close> (lines 247-250): the attached profiler; it asserts that
  one is attached. The cast of anything but an xdebug profiler is counted as a failed
  assertion as well.\<close>

definition xdebug_profiler :: "world \<Rightarrow> error + XDebugProfiler" where
  "xdebug_profiler w =
     (if \<not> m_profiler_attached w then Inl AssertionFailed
      else case m_profiler (s_profiler_factory w) of
             XDebug p \<Rightarrow> Inr p
           | NoProfiler \<Rightarrow> Inl AssertionFailed
           | OtherProfiler \<Rightarrow> Inl AssertionFailed)"

text \<open>The profiler is reached through a pointer: a call on it updates the object the
  factory holds.\<close>

definition set_profiler :: "XDebugProfiler \<Rightarrow> world \<Rightarrow> world" where
  "set_profiler p w = w\<lparr>s_profiler_factory := (s_profiler_factory w)\<lparr>m_profiler := XDebug p\<rparr>\<rparr>"

section \<open>The lifecycle manager\<close>

text \<open>\<^verbatim>\<open>start_tracing\<close> (lines 253-280), on the profiler and the count of
  \<^verbatim>\<open>f_rand()\<close> calls.\<close>

definition trace_options :: "config \<Rightarrow> 64 word \<Rightarrow> 64 word" where
  "trace_options cfg options =
     (let o1 = (if TraceOptions cfg \<noteq> 0 then options OR k_XDEBUG_TRACE_APPEND (bits cfg)
                else options);
          o2 = (if TraceFormat cfg = 1 then o1 OR k_XDEBUG_TRACE_COMPUTERIZED (bits cfg) else o1)
      in (if TraceFormat cfg = 2 then o2 OR k_XDEBUG_TRACE_HTML (bits cfg) else o2))"

definition start_tracing ::
    "config \<Rightarrow> env \<Rightarrow> XDebugProfiler \<times> nat \<Rightarrow> string option \<Rightarrow> 64 word \<Rightarrow> XDebugProfiler \<times> nat" where
  "start_tracing cfg e pn filename options0 =
     (let options = trace_options cfg options0;
          (dirname, fname) =
            (case filename of
               None \<Rightarrow> (Some (TraceOutputDir cfg), TraceOutputName cfg)
             | Some f \<Rightarrow> (None, f));
          suffix = (options AND k_XDEBUG_TRACE_NAKED_FILENAME (bits cfg) = 0);
          (abs_filename, n) = format_filename e (snd pn) dirname fname suffix
      in (enableTracing abs_filename options (fst pn), n))"

text \<open>\<^verbatim>\<open>start_profiling\<close> (lines 283-295).\<close>

definition start_profiling ::
    "config \<Rightarrow> env \<Rightarrow> XDebugProfiler \<times> nat \<Rightarrow> XDebugProfiler \<times> nat" where
  "start_profiling cfg e pn =
     (let opts = (if ProfilerAppend cfg then 0 OR k_XDEBUG_PROFILE_APPEND (bits cfg) else 0);
          (abs_filename, n) =
            format_filename e (snd pn) (Some (ProfilerOutputDir cfg)) (ProfilerOutputName cfg) False
      in (enableProfiling abs_filename opts (fst pn), n))"

text \<open>\<^verbatim>\<open>attach_xdebug_profiler\<close> (lines 299-317).\<close>

definition attach_xdebug_profiler :: "config \<Rightarrow> env \<Rightarrow> world \<Rightarrow> (error + unit) \<times> world" where
  "attach_xdebug_profiler cfg e w =
     (if m_profiler_attached w then (Inl AssertionFailed, w)
      else case factory_start (s_profiler_factory w) of
        (True, f) \<Rightarrow>
          (let w1 = w\<lparr>s_profiler_factory := f, m_profiler_attached := True\<rparr> in
           case xdebug_profiler w1 of
             Inl err \<Rightarrow> (Inl err, w1)
           | Inr profiler \<Rightarrow>
              (let pn0 = (profiler, rand_calls w1);
                   pn1 = (if isProfilingNeeded cfg e then start_profiling cfg e pn0 else pn0);
                   pn2 = (if isTracingNeeded cfg e then start_tracing cfg e pn1 None 0 else pn1);
                   p3 = setCollectTime (CollectTime cfg)
                          (setCollectMemory (CollectMemory cfg) (fst pn2))
               in (Inr (), set_profiler p3 (w1\<lparr>rand_calls := snd pn2\<rparr>))))
      | (False, f) \<Rightarrow> (Inl CouldNotStartProfiler, w\<lparr>s_profiler_factory := f\<rparr>))"

text \<open>\<^verbatim>\<open>detach_xdebug_profiler\<close> (lines 320-324).\<close>

definition detach_xdebug_profiler :: "world \<Rightarrow> (error + unit) \<times> world" where
  "detach_xdebug_profiler w =
     (if \<not> m_profiler_attached w then (Inl AssertionFailed, w)
      else (Inr (), w\<lparr>s_profiler_factory := factory_stop (s_profiler_factory w),
                       m_profiler_attached := False\<rparr>))"

text \<open>\<^verbatim>\<open>detach_xdebug_profiler_if_needed\<close> (lines 327-333).\<close>

definition detach_xdebug_profiler_if_needed :: "world \<Rightarrow> (error + unit) \<times> world" where
  "detach_xdebug_profiler_if_needed w =
     (if \<not> m_profiler_attached w then (Inl AssertionFailed, w)
      else case xdebug_profiler w of
             Inl err \<Rightarrow> (Inl err, w)
           | Inr profiler \<Rightarrow>
               if \<not> isCollecting profiler then detach_xdebug_profiler w else (Inr (), w))"

section \<open>The operations of the extension\<close>

text \<open>\<^verbatim>\<open>xdebug_get_tracefile_name\<close> (lines 476-484).\<close>

definition xdebug_get_tracefile_name :: "world \<Rightarrow> error + variant" where
  "xdebug_get_tracefile_name w =
     (if m_profiler_attached w then
        (case xdebug_profiler w of
           Inl err \<Rightarrow> Inl err
         | Inr profiler \<Rightarrow>
             if isTracing profiler then Inr (VStr (getTracingFilename profiler))
             else Inr (VBool False))
      else Inr (VBool False))"

text \<open>\<^verbatim>\<open>xdebug_memory_usage\<close> (lines 489-494), on the allocator's reading
  \<^verbatim>\<open>MM().getStats().usage\<close>, a signed 64-bit integer.\<close>

definition xdebug_memory_usage :: "bool \<Rightarrow> 64 word \<Rightarrow> error + 64 word" where
  "xdebug_memory_usage use_jemalloc usage =
     (if \<not> (use_jemalloc \<or> word_sle 0 usage) then Inl AssertionFailed
      else Inr (if word_sless usage 0 then 0 else usage))"

text \<open>\<^verbatim>\<open>xdebug_code_coverage_started\<close> (lines 397-400),
  \<^verbatim>\<open>xdebug_start_code_coverage\<close> (lines 505-524) and \<^verbatim>\<open>xdebug_stop_code_coverage\<close>
  (lines 556-563).\<close>

definition xdebug_code_coverage_started :: "world \<Rightarrow> bool" where
  "xdebug_code_coverage_started w = coverage w"

definition xdebug_start_code_coverage :: "env \<Rightarrow> 64 word \<Rightarrow> world \<Rightarrow> (error + unit) \<times> world" where
  "xdebug_start_code_coverage e options w =
     (if options \<noteq> 0 then (Inl CoverageOptionsNotSupported, w)
      else (let w1 = w\<lparr>coverage := True\<rparr>;
                w2 = (if isNested e then w1\<lparr>notices := Suc (notices w1)\<rparr> else w1)
            in (Inl VMSwitchModeBuiltin, w2)))"

definition xdebug_stop_code_coverage :: "bool \<Rightarrow> world \<Rightarrow> world" where
  "xdebug_stop_code_coverage cleanup w =
     (let w1 = w\<lparr>coverage := False\<rparr> in if cleanup then w1\<lparr>m_coverage := []\<rparr> else w1)"

text \<open>\<^verbatim>\<open>xdebug_start_trace\<close> (lines 529-554).\<close>

definition xdebug_start_trace ::
    "config \<Rightarrow> env \<Rightarrow> variant \<Rightarrow> 64 word \<Rightarrow> world \<Rightarrow> (error + variant) \<times> world" where
  "xdebug_start_trace cfg e traceFileVar options w =
     (let traceFile = (if isString traceFileVar then Some (toString traceFileVar) else None) in
      case (if \<not> m_profiler_attached w then attach_xdebug_profiler cfg e w else (Inr (), w)) of
        (Inl err, w1) \<Rightarrow> (Inl err, w1)
      | (Inr u, w1) \<Rightarrow>
         (case xdebug_profiler w1 of
            Inl err \<Rightarrow> (Inl err, w1)
          | Inr profiler \<Rightarrow>
              if isTracing profiler then (Inr (VBool False), w1)
              else (let pn = start_tracing cfg e (profiler, rand_calls w1) traceFile options;
                        w2 = set_profiler (beginFrame (fst pn)) (w1\<lparr>rand_calls := snd pn\<rparr>)
                    in (case xdebug_get_tracefile_name w2 of
                          Inl err \<Rightarrow> (Inl err, w2)
                        | Inr v \<Rightarrow> (Inr v, w2)))))"

text \<open>\<^verbatim>\<open>xdebug_stop_trace\<close> (lines 568-579).\<close>

definition xdebug_stop_trace :: "world \<Rightarrow> (error + variant) \<times> world" where
  "xdebug_stop_trace w =
     (if m_profiler_attached w then
        (case xdebug_profiler w of
           Inl err \<Rightarrow> (Inl err, w)
         | Inr profiler \<Rightarrow>
             if isTracing profiler then
               (let filename = getTracingFilename profiler;
                    w1 = set_profiler (disableTracing profiler) w
                in case detach_xdebug_profiler_if_needed w1 of
                     (Inl err, w2) \<Rightarrow> (Inl err, w2)
                   | (Inr u, w2) \<Rightarrow> (Inr (VStr filename), w2))
             else (Inr (VBool False), w))
      else (Inr (VBool False), w))"

text \<open>\<^verbatim>\<open>_xdebug_check_trigger_vars\<close> (lines 589-593),
  \<^verbatim>\<open>XDebugExtension::requestInit\<close> (lines 707-711) and
  \<^verbatim>\<open>XDebugExtension::requestShutdown\<close> (lines 713-717).\<close>

definition xdebug_check_trigger_vars :: "config \<Rightarrow> env \<Rightarrow> world \<Rightarrow> (error + unit) \<times> world" where
  "xdebug_check_trigger_vars cfg e w =
     (if Enable cfg \<and> isProfilerNeeded cfg e then attach_xdebug_profiler cfg e w
      else (Inr (), w))"

definition XDebugExtension_requestInit :: "config \<Rightarrow> env \<Rightarrow> world \<Rightarrow> (error + unit) \<times> world" where
  "XDebugExtension_requestInit cfg e w =
     (if Enable cfg \<and> isProfilerNeeded cfg e then attach_xdebug_profiler cfg e w
      else (Inr (), w))"

definition XDebugExtension_requestShutdown :: "config \<Rightarrow> world \<Rightarrow> (error + unit) \<times> world" where
  "XDebugExtension_requestShutdown cfg w =
     (if Enable cfg \<and> m_profiler_attached w then detach_xdebug_profiler w else (Inr (), w))"

section \<open>Sequences of operations and the predicates the properties use\<close>

text \<open>
  A prefix of a template is scanned completely when the loop, started at its first
  character, stops exactly at its end: its last character is not a \<^verbatim>\<open>%\<close> that the loop
  reads as the start of a directive. What follows such a prefix is scanned as if it stood
  at the start of a template.
\<close>

fun scan_complete :: "string \<Rightarrow> bool" where
  "scan_complete [] = True"
| "scan_complete [c] = (c \<noteq> CHR ''%'')"
| "scan_complete (c # d # cs) =
     (if c \<noteq> CHR ''%'' then scan_complete (d # cs) else scan_complete cs)"

text \<open>
  A state is well formed when the flag \<open>m_profiler_attached\<close> is set only while the
  factory holds an xdebug profiler, which is what \<^verbatim>\<open>xdebug_profiler()\<close> relies on. A
  trace is running in a state when a profiler is attached and reports \<^verbatim>\<open>isTracing()\<close>.
\<close>

definition well_formed :: "world \<Rightarrow> bool" where
  "well_formed w =
     (if m_profiler_attached w
      then (case m_profiler (s_profiler_factory w) of
              XDebug p \<Rightarrow> True | NoProfiler \<Rightarrow> False | OtherProfiler \<Rightarrow> False)
      else True)"

definition tracing :: "world \<Rightarrow> bool" where
  "tracing w =
     (m_profiler_attached w \<and>
      (case m_profiler (s_profiler_factory w) of
         XDebug p \<Rightarrow> isTracing p | NoProfiler \<Rightarrow> False | OtherProfiler \<Rightarrow> False))"

text \<open>The handlers of \<^verbatim>\<open>XDebugRequestData\<close> (lines 36-44), \<open>now\<close> being
  \<^verbatim>\<open>Timer::GetCurrentTimeMicros()\<close>.\<close>

definition XDebugRequestData_requestInit :: "int \<Rightarrow> world \<Rightarrow> world" where
  "XDebugRequestData_requestInit now w = w\<lparr>m_init_time := now, m_profiler_attached := False\<rparr>"

definition XDebugRequestData_requestShutdown :: "world \<Rightarrow> world" where
  "XDebugRequestData_requestShutdown w = w\<lparr>m_init_time := 0, m_profiler_attached := False\<rparr>"

text \<open>
  The operations that move the attachment flag, and a run of them from a given state.
  Each operation comes with the surroundings it is executed in. A failed assertion ends
  the run (the process aborts); after a fatal error the run goes on from the state the
  error left, so that what follows a failed request (its shutdown) is covered as well.
\<close>

datatype operation =
    Attach
  | Detach
  | DetachIfNeeded
  | StartTrace variant "64 word"
  | StopTrace
  | RequestShutdown

definition drop_value :: "(error + 'a) \<times> world \<Rightarrow> (error + unit) \<times> world" where
  "drop_value r = (case fst r of Inl err \<Rightarrow> (Inl err, snd r) | Inr v \<Rightarrow> (Inr (), snd r))"

fun perform :: "config \<Rightarrow> env \<Rightarrow> operation \<Rightarrow> world \<Rightarrow> (error + unit) \<times> world" where
  "perform cfg e Attach w = attach_xdebug_profiler cfg e w"
| "perform cfg e Detach w = detach_xdebug_profiler w"
| "perform cfg e DetachIfNeeded w = detach_xdebug_profiler_if_needed w"
| "perform cfg e (StartTrace v options) w = drop_value (xdebug_start_trace cfg e v options w)"
| "perform cfg e StopTrace w = drop_value (xdebug_stop_trace w)"
| "perform cfg e RequestShutdown w = XDebugExtension_requestShutdown cfg w"

fun run :: "config \<Rightarrow> (env \<times> operation) list \<Rightarrow> world \<Rightarrow> world" where
  "run cfg [] w = w"
| "run cfg ((e, op) # ops) w =
     (case perform cfg e op w of
        (Inl AssertionFailed, w') \<Rightarrow> w'
      | (r, w') \<Rightarrow> run cfg ops w')"

text \<open>
  The factory's calls, newest first, alternate when no two neighbours are equal and the
  oldest is a start; a profiler is bound after them when the newest is a start.
\<close>

fun alternate :: "factory_call list \<Rightarrow> bool" where
  "alternate [] = True"
| "alternate [c] = (c = Start)"
| "alternate (c # d # cs) = (c \<noteq> d \<and> alternate (d # cs))"

definition bound_after :: "factory_call list \<Rightarrow> bool" where
  "bound_after cs = (case cs of [] \<Rightarrow> False | c # cs' \<Rightarrow> c = Start)"

definition flag_follows_calls :: "world \<Rightarrow> bool" where
  "flag_follows_calls w =
     (well_formed w
      \<and> m_profiler_attached w = bound_after (calls (s_profiler_factory w))
      \<and> alternate (calls (s_profiler_factory w)))"

text \<open>Concrete inputs: a state at the start of a request on a thread with no
  profiler, a configuration with every automatic start switched off (the option constants
  with the values of the PHP extension), and surroundings of a request.\<close>

definition fresh_world :: world where
  "fresh_world =
     \<lparr>m_profiler_attached = False, m_init_time = 0,
      s_profiler_factory = \<lparr>m_profiler = NoProfiler, calls = []\<rparr>,
      rand_calls = 0, coverage = False, m_coverage = [], notices = 0\<rparr>"

definition sample_config :: config where
  "sample_config =
     \<lparr>Enable = True, TraceOptions = 0, TraceFormat = 0,
      TraceOutputDir = ''/tmp'', TraceOutputName = ''trace.%p'',
      ProfilerAppend = False, ProfilerOutputDir = ''/tmp'',
      ProfilerOutputName = ''cachegrind.out.%p'',
      CollectMemory = False, CollectTime = False,
      bits = \<lparr>k_XDEBUG_TRACE_APPEND = 1, k_XDEBUG_TRACE_COMPUTERIZED = 2,
              k_XDEBUG_TRACE_HTML = 4, k_XDEBUG_TRACE_NAKED_FILENAME = 8,
              k_XDEBUG_PROFILE_APPEND = 1\<rparr>,
      ProfilerEnable = False, ProfilerEnableTrigger = False,
      ProfilerTrigger = ''XDEBUG_PROFILE'',
      AutoTrace = False, TraceEnableTrigger = False, TraceTrigger = ''XDEBUG_TRACE''\<rparr>"

definition sample_env :: env where
  "sample_env =
     \<lparr>global_variables = [(''_SERVER'', VArr [(''SCRIPT_NAME'', VStr ''/index.php'')])],
      ini_settings = [], cwd_crc32 = 7, getpid = 42, f_rand = (\<lambda>n. 255),
      time_now = 1400000000, gettimeofday = Some (1400000000, 17), isNested = False\<rparr>"

section \<open>The scanning loop\<close>

lemma format_loop_append:
  "scan_complete pre \<Longrightarrow>
   format_loop e (pre @ post) st = format_loop e post (format_loop e pre st)"
proof (induction pre arbitrary: st rule: scan_complete.induct)
  case 1
  then show ?case by simp
next
  case (2 c)
  obtain buf n where st: "st = (buf, n)" by (cases st)
  from 2 show ?case by (cases post) (simp_all add: st)
next
  case (3 c d cs)
  obtain buf n where st: "st = (buf, n)" by (cases st)
  from 3 show ?case by (simp add: st split: if_splits)
qed

lemma directive_unknown:
  "c \<notin> set ''cprstuHRUS%'' \<Longrightarrow> directive e c (buf, n) = (buf @ [CHR ''%'', c], n)"
  by (simp add: directive.simps)

lemma directive_percent: "directive e (CHR ''%'') (buf, n) = (buf @ ''%'', n)"
  by (simp add: directive.simps)

text \<open>
  C8. Wherever the scan reaches it, a \<^verbatim>\<open>%\<close> followed by a character that is none of
  \<^verbatim>\<open>c p r s t u H R U S %\<close> puts the \<^verbatim>\<open>%\<close> and that character into the output unchanged
  and the scan goes on behind them; a \<^verbatim>\<open>%\<close> that is the last character of the template
  is put out as it is; \<^verbatim>\<open>%%\<close> puts out one \<^verbatim>\<open>%\<close>; and the template \<^verbatim>\<open>%q\<close> resolves to
  \<^verbatim>\<open>%q\<close>.
\<close>

theorem unrecognized_and_trailing_percent_literal:
  assumes "scan_complete pre" and "format_loop e pre st = (buf, n)"
  shows "(c \<notin> set ''cprstuHRUS%'' \<longrightarrow>
            format_loop e (pre @ CHR ''%'' # c # post) st
              = format_loop e post (buf @ [CHR ''%'', c], n))
       \<and> format_loop e (pre @ ''%'') st = (buf @ ''%'', n)
       \<and> format_loop e (pre @ ''%%'' @ post) st = format_loop e post (buf @ ''%'', n)
       \<and> format_filename e k None ''%q'' False = (''%q'', k)"
proof (intro conjI impI)
  assume "c \<notin> set ''cprstuHRUS%''"
  then show "format_loop e (pre @ CHR ''%'' # c # post) st
               = format_loop e post (buf @ [CHR ''%'', c], n)"
    using assms by (simp add: format_loop_append directive_unknown del: set_simps)
next
  show "format_loop e (pre @ ''%'') st = (buf @ ''%'', n)"
    using assms by (simp add: format_loop_append)
next
  show "format_loop e (pre @ ''%%'' @ post) st = format_loop e post (buf @ ''%'', n)"
    using assms by (simp add: format_loop_append directive_percent)
next
  show "format_filename e k None ''%q'' False = (''%q'', k)"
    by (simp add: format_filename_def directive.simps)
qed

theorem unrecognized_and_trailing_percent_literal_witness:
  "\<forall>e. format_loop e ''ab%qz'' ([], 0) = (''ab%qz'', 0)
      \<and> format_loop e ''ab%'' ([], 0) = (''ab%'', 0)
      \<and> format_loop e ''ab%%z'' ([], 0) = (''ab%z'', 0)
      \<and> format_filename e 0 None ''%q'' False = (''%q'', 0)"
proof
  fix e :: env
  have pre: "scan_complete ''ab''" by simp
  have run: "format_loop e ''ab'' ([], 0) = (''ab'', 0)" by simp
  show "format_loop e ''ab%qz'' ([], 0) = (''ab%qz'', 0)
      \<and> format_loop e ''ab%'' ([], 0) = (''ab%'', 0)
      \<and> format_loop e ''ab%%z'' ([], 0) = (''ab%z'', 0)
      \<and> format_filename e 0 None ''%q'' False = (''%q'', 0)"
    using unrecognized_and_trailing_percent_literal
            [OF pre run, of "CHR ''q''" "''z''" 0]
    by simp
qed

section \<open>Directives that read the request's variables\<close>

lemmas global_names =
  s_SERVER_def s_COOKIE_def s_GET_def s_POST_def s_HTTP_HOST_def s_REQUEST_URI_def
  s_SCRIPT_NAME_def s_UNIQUE_ID_def s_SESSION_NAME_def

text \<open>
  C3. The claim: \<^verbatim>\<open>%S\<close> contributes the sanitized session id when the session-name
  setting is there and the cookie map binds that name to a string, and nothing in every
  other case. The code at three inputs: without the setting \<^verbatim>\<open>session.name\<close> the
  template \<^verbatim>\<open>%S\<close> resolves to \<^verbatim>\<open>%\<close>; with the setting and the session cookie in
  \<^verbatim>\<open>$_COOKIE\<close> it resolves to the empty string; only a global variable named
  \<^verbatim>\<open>_COOOKIE\<close> gives the sanitized session id.
\<close>

theorem session_directive_at_inputs:
  "format_filename (e\<lparr>ini_settings := []\<rparr>) n None ''%S'' False = (''%'', n)
   \<and> format_filename
        (e\<lparr>ini_settings := [(''session.name'', ''PHPSESSID'')],
           global_variables := [(''_COOKIE'', VArr [(''PHPSESSID'', VStr ''abc.def'')])]\<rparr>)
        n None ''%S'' False = ([], n)
   \<and> format_filename
        (e\<lparr>ini_settings := [(''session.name'', ''PHPSESSID'')],
           global_variables := [(''_COOOKIE'', VArr [(''PHPSESSID'', VStr ''abc.def'')])]\<rparr>)
        n None ''%S'' False = (''abc_def'', n)"
  by (simp add: format_filename_def directive.simps global_names array_get_def
        array_exists_def replace_special_chars_def special_char_def)

text \<open>
  C5. The claim: \<^verbatim>\<open>%R\<close> resolves to the sanitized \<^verbatim>\<open>REQUEST_URI\<close> entry of the server
  map when that entry is present, the presence being tested on the server map as for
  \<^verbatim>\<open>%s\<close>, \<^verbatim>\<open>%H\<close> and \<^verbatim>\<open>%U\<close>. The code at three inputs: with the entry in
  \<^verbatim>\<open>$_SERVER\<close> the template \<^verbatim>\<open>%R\<close> resolves to the empty string, where \<^verbatim>\<open>%s\<close> on the same
  value under \<^verbatim>\<open>SCRIPT_NAME\<close> gives the sanitized value; \<^verbatim>\<open>%R\<close> gives it only when
  there is, besides, a global variable named \<^verbatim>\<open>REQUEST_URI\<close>.
\<close>

theorem request_uri_directive_at_inputs:
  "format_filename
     (e\<lparr>global_variables := [(''_SERVER'', VArr [(''REQUEST_URI'', VStr ''/index.php'')])]\<rparr>)
     n None ''%R'' False = ([], n)
   \<and> format_filename
     (e\<lparr>global_variables := [(''_SERVER'', VArr [(''SCRIPT_NAME'', VStr ''/index.php'')])]\<rparr>)
     n None ''%s'' False = (''_index_php'', n)
   \<and> format_filename
     (e\<lparr>global_variables := [(''_SERVER'', VArr [(''REQUEST_URI'', VStr ''/index.php'')]),
                               (''REQUEST_URI'', VNull)]\<rparr>)
     n None ''%R'' False = (''_index_php'', n)"
  by (simp add: format_filename_def directive.simps global_names array_get_def
        array_exists_def replace_special_chars_def special_char_def)

text \<open>
  C4. The claim: the policy check at request start attaches exactly when the extension
  is enabled and profiling is asked for by an enable flag or by the trigger key in the
  GET, POST or COOKIE map; a key in the COOKIE map alone is enough. The code at an input
  with the key in \<^verbatim>\<open>$_COOKIE\<close> alone, the extension enabled and the profiler trigger
  switched on: \<open>isTriggerSet\<close> is false and \<open>XDebugExtension_requestInit\<close> leaves the state as it
  is; the same key in \<^verbatim>\<open>$_GET\<close> is seen.
\<close>

theorem cookie_trigger_at_inputs:
  "isTriggerSet
     (e\<lparr>global_variables := [(''_GET'', VArr []), (''_POST'', VArr []),
                               (''_COOKIE'', VArr [(''XDEBUG_PROFILE'', VStr ''1'')])]\<rparr>)
     ''XDEBUG_PROFILE'' = False
   \<and> XDebugExtension_requestInit
       (cfg\<lparr>Enable := True, ProfilerEnable := False, ProfilerEnableTrigger := True,
             ProfilerTrigger := ''XDEBUG_PROFILE'', AutoTrace := False,
             TraceEnableTrigger := False\<rparr>)
       (e\<lparr>global_variables := [(''_GET'', VArr []), (''_POST'', VArr []),
                               (''_COOKIE'', VArr [(''XDEBUG_PROFILE'', VStr ''1'')])]\<rparr>)
       w = (Inr (), w)
   \<and> isTriggerSet
     (e\<lparr>global_variables := [(''_GET'', VArr [(''XDEBUG_PROFILE'', VStr ''1'')])]\<rparr>)
     ''XDEBUG_PROFILE'' = True"
  by (simp add: isTriggerSet_def XDebugExtension_requestInit_def isProfilerNeeded_def isProfilingNeeded_def
        isTracingNeeded_def global_names array_get_def array_exists_def)

section \<open>Memory usage and code coverage\<close>

text \<open>
  C9. \<^verbatim>\<open>xdebug_memory_usage\<close> never returns a negative value, and whenever its
  assertion holds (jemalloc in use, or a reading that is not negative) it returns the
  maximum of the reading and zero.
\<close>

theorem memory_usage_never_negative:
  "(\<forall>r. xdebug_memory_usage j u = Inr r \<longrightarrow> 0 \<le> sint r)
   \<and> ((j \<or> 0 \<le> sint u) \<longrightarrow>
         (\<exists>r. xdebug_memory_usage j u = Inr r \<and> sint r = max (sint u) 0))"
  by (auto simp: xdebug_memory_usage_def word_sle_eq word_sless_alt)

theorem memory_usage_never_negative_witness:
  "\<exists>r. xdebug_memory_usage True (- 5) = Inr r \<and> sint r = 0"
  using memory_usage_never_negative [of True "- 5"] by simp

text \<open>
  C6. \<^verbatim>\<open>xdebug_start_code_coverage\<close> with options other than zero raises the fatal
  error and returns the state it was given, so the coverage flag and the coverage data are
  as before; with options zero the coverage flag is true afterwards (and the coverage data
  are as before).
\<close>

theorem coverage_option_guard:
  "(options \<noteq> 0 \<longrightarrow>
      xdebug_start_code_coverage e options w = (Inl CoverageOptionsNotSupported, w))
   \<and> (options = 0 \<longrightarrow>
         coverage (snd (xdebug_start_code_coverage e options w))
       \<and> xdebug_code_coverage_started (snd (xdebug_start_code_coverage e options w))
       \<and> m_coverage (snd (xdebug_start_code_coverage e options w)) = m_coverage w)"
  by (simp add: xdebug_start_code_coverage_def xdebug_code_coverage_started_def Let_def)

theorem coverage_option_guard_witness:
  "\<forall>e w. xdebug_start_code_coverage e 1 w = (Inl CoverageOptionsNotSupported, w)
       \<and> coverage (snd (xdebug_start_code_coverage e 0 w))"
proof (intro allI)
  fix e :: env and w :: world
  show "xdebug_start_code_coverage e 1 w = (Inl CoverageOptionsNotSupported, w)
       \<and> coverage (snd (xdebug_start_code_coverage e 0 w))"
    using coverage_option_guard [of 1 e w] coverage_option_guard [of 0 e w] by simp
qed

section \<open>Attaching, starting and stopping\<close>

lemma xdebug_profiler_bound:
  "m_profiler_attached w \<Longrightarrow> m_profiler (s_profiler_factory w) = XDebug p \<Longrightarrow>
   xdebug_profiler w = Inr p"
  by (simp add: xdebug_profiler_def)

lemma well_formed_attached:
  "well_formed w \<Longrightarrow> m_profiler_attached w \<Longrightarrow> \<exists>p. m_profiler (s_profiler_factory w) = XDebug p"
  by (auto simp: well_formed_def split: bound_profiler.splits)

lemma attach_fails:
  "\<not> m_profiler_attached w \<Longrightarrow> m_profiler (s_profiler_factory w) \<noteq> NoProfiler \<Longrightarrow>
   attach_xdebug_profiler cfg e w = (Inl CouldNotStartProfiler, w)"
  by (cases "m_profiler (s_profiler_factory w)")
     (simp_all add: attach_xdebug_profiler_def factory_start_def)

lemma start_tracing_tracing [simp]:
  "tracingEnabled (fst (start_tracing cfg e pn tf options))"
  by (simp add: start_tracing_def enableTracing_def Let_def split_beta)

lemma start_profiling_tracing [simp]:
  "tracingEnabled (fst (start_profiling cfg e pn)) = tracingEnabled (fst pn)"
  by (simp add: start_profiling_def enableProfiling_def Let_def split_beta)

lemma attach_succeeds:
  assumes "\<not> m_profiler_attached w" and "m_profiler (s_profiler_factory w) = NoProfiler"
  shows "fst (attach_xdebug_profiler cfg e w) = Inr ()"
    and "m_profiler_attached (snd (attach_xdebug_profiler cfg e w))"
    and "calls (s_profiler_factory (snd (attach_xdebug_profiler cfg e w)))
           = Start # calls (s_profiler_factory w)"
    and "\<exists>p. m_profiler (s_profiler_factory (snd (attach_xdebug_profiler cfg e w))) = XDebug p
             \<and> isTracing p = isTracingNeeded cfg e"
  using assms
  by (simp_all add: attach_xdebug_profiler_def factory_start_def xdebug_profiler_def Let_def
        set_profiler_def isTracing_def setCollectTime_def setCollectMemory_def
        new_XDebugProfiler_def)

lemma start_tracing_result:
  "\<not> isTracing p \<Longrightarrow>
   start_tracing cfg e (p, n) tf options =
     (let ff = format_filename e n
                 (case tf of None \<Rightarrow> Some (TraceOutputDir cfg) | Some f \<Rightarrow> None)
                 (case tf of None \<Rightarrow> TraceOutputName cfg | Some f \<Rightarrow> f)
                 (trace_options cfg options AND k_XDEBUG_TRACE_NAKED_FILENAME (bits cfg) = 0)
      in (p\<lparr>tracingEnabled := True, tracingFilename := fst ff,
              tracingOpts := trace_options cfg options\<rparr>, snd ff))"
  by (cases tf) (simp_all add: start_tracing_def enableTracing_def isTracing_def Let_def split_beta)

lemma start_trace_from_idle:
  assumes "m_profiler_attached w" and "m_profiler (s_profiler_factory w) = XDebug p"
      and "\<not> isTracing p"
  shows "xdebug_start_trace cfg e v options w =
           (let pn = start_tracing cfg e (p, rand_calls w)
                       (if isString v then Some (toString v) else None) options
            in (Inr (VStr (tracingFilename (fst pn))),
                set_profiler (beginFrame (fst pn)) (w\<lparr>rand_calls := snd pn\<rparr>)))"
  using assms
  by (simp add: xdebug_start_trace_def xdebug_profiler_def Let_def set_profiler_def
        xdebug_get_tracefile_name_def isTracing_def beginFrame_def getTracingFilename_def)

lemma start_trace_already_tracing:
  assumes "m_profiler_attached w" and "m_profiler (s_profiler_factory w) = XDebug p"
      and "isTracing p"
  shows "xdebug_start_trace cfg e v options w = (Inr (VBool False), w)"
  using assms by (simp add: xdebug_start_trace_def xdebug_profiler_def)

lemma start_trace_detached:
  assumes "\<not> m_profiler_attached w" and "attach_xdebug_profiler cfg e w = (Inr (), w0)"
      and "m_profiler_attached w0"
  shows "xdebug_start_trace cfg e v options w = xdebug_start_trace cfg e v options w0"
  using assms by (simp add: xdebug_start_trace_def)

lemma start_trace_attach_fails:
  assumes "\<not> m_profiler_attached w" and "m_profiler (s_profiler_factory w) \<noteq> NoProfiler"
  shows "xdebug_start_trace cfg e v options w = (Inl CouldNotStartProfiler, w)"
  using assms by (simp add: xdebug_start_trace_def attach_fails)


lemma stop_trace_not_tracing:
  "well_formed w \<Longrightarrow> \<not> tracing w \<Longrightarrow> xdebug_stop_trace w = (Inr (VBool False), w)"
  by (cases "m_profiler (s_profiler_factory w)")
     (auto simp: well_formed_def tracing_def xdebug_stop_trace_def xdebug_profiler_def
        split: if_splits)

lemma stop_trace_tracing:
  assumes "m_profiler_attached w" and "m_profiler (s_profiler_factory w) = XDebug p"
      and "isTracing p"
  shows "fst (xdebug_stop_trace w) = Inr (VStr (tracingFilename p))"
    and "\<not> tracing (snd (xdebug_stop_trace w))"
    and "xdebug_get_tracefile_name (snd (xdebug_stop_trace w)) = Inr (VBool False)"
  using assms
  by (simp_all add: xdebug_stop_trace_def xdebug_profiler_def Let_def set_profiler_def
        detach_xdebug_profiler_if_needed_def detach_xdebug_profiler_def isCollecting_def
        isTracing_def isProfiling_def disableTracing_def getTracingFilename_def tracing_def
        factory_stop_def xdebug_get_tracefile_name_def)

lemmas sample_evaluation =
  fresh_world_def sample_config_def sample_env_def
  xdebug_start_trace_def xdebug_stop_trace_def xdebug_get_tracefile_name_def
  attach_xdebug_profiler_def detach_xdebug_profiler_def detach_xdebug_profiler_if_needed_def
  XDebugExtension_requestShutdown_def factory_start_def factory_stop_def xdebug_profiler_def set_profiler_def
  start_tracing_def start_profiling_def trace_options_def format_filename_def directive.simps
  show_int_def show_nat.simps isProfilingNeeded_def isTracingNeeded_def isTriggerSet_def
  global_names array_get_def array_exists_def new_XDebugProfiler_def
  enableTracing_def disableTracing_def enableProfiling_def beginFrame_def
  setCollectTime_def setCollectMemory_def isTracing_def isProfiling_def isCollecting_def
  getTracingFilename_def Let_def

text \<open>
  C7. In a well-formed state in which a trace is running, \<^verbatim>\<open>xdebug_start_trace\<close>
  returns the boolean false and leaves the whole state as it was, so the running trace
  keeps its file name and options and no new trace is started. The call ends in an error
  exactly when no profiler is attached and the factory cannot bind one; the error is then
  the one \<^verbatim>\<open>attach_xdebug_profiler\<close> raises, and the state is unchanged.
\<close>

theorem start_trace_when_already_tracing:
  assumes "well_formed w"
  shows "(tracing w \<longrightarrow> xdebug_start_trace cfg e v options w = (Inr (VBool False), w))
       \<and> ((\<exists>err. fst (xdebug_start_trace cfg e v options w) = Inl err)
            \<longleftrightarrow> (\<not> m_profiler_attached w \<and> m_profiler (s_profiler_factory w) \<noteq> NoProfiler))
       \<and> (\<forall>err. fst (xdebug_start_trace cfg e v options w) = Inl err \<longrightarrow>
             err = CouldNotStartProfiler \<and> snd (xdebug_start_trace cfg e v options w) = w)"
proof (cases "m_profiler_attached w")
  case True
  then obtain p where p: "m_profiler (s_profiler_factory w) = XDebug p"
    using assms well_formed_attached by blast
  show ?thesis
  proof (cases "isTracing p")
    case tr: True
    then show ?thesis
      using True p by (simp add: start_trace_already_tracing tracing_def)
  next
    case False
    then show ?thesis
      using True p by (simp add: start_trace_from_idle tracing_def Let_def)
  qed
next
  case False
  show ?thesis
  proof (cases "m_profiler (s_profiler_factory w) = NoProfiler")
    case free: True
    let ?w0 = "snd (attach_xdebug_profiler cfg e w)"
    have att: "attach_xdebug_profiler cfg e w = (Inr (), ?w0)"
      using attach_succeeds(1) [OF False free, of cfg e] by (simp add: prod_eq_iff)
    have a0: "m_profiler_attached ?w0" using attach_succeeds(2) [OF False free] .
    obtain p where p: "m_profiler (s_profiler_factory ?w0) = XDebug p"
      using attach_succeeds(4) [OF False free, of cfg e] by blast
    have eq: "xdebug_start_trace cfg e v options w = xdebug_start_trace cfg e v options ?w0"
      using start_trace_detached [OF False att a0] .
    have "\<exists>r. fst (xdebug_start_trace cfg e v options ?w0) = Inr r"
      by (cases "isTracing p")
         (simp_all add: start_trace_already_tracing [OF a0 p] start_trace_from_idle [OF a0 p] Let_def)
    then show ?thesis
      using False free by (auto simp: eq tracing_def)
  next
    case busy: False
    then show ?thesis
      using False by (simp add: start_trace_attach_fails tracing_def)
  qed
qed

theorem start_trace_when_already_tracing_witness:
  "xdebug_start_trace sample_config sample_env (VStr ''bar'') 0
     (fresh_world\<lparr>m_profiler_attached := True,
        s_profiler_factory :=
          \<lparr>m_profiler = XDebug (new_XDebugProfiler\<lparr>tracingEnabled := True,
                                   tracingFilename := ''foo.xt''\<rparr>),
           calls = [Start]\<rparr>\<rparr>)
   = (Inr (VBool False),
      fresh_world\<lparr>m_profiler_attached := True,
        s_profiler_factory :=
          \<lparr>m_profiler = XDebug (new_XDebugProfiler\<lparr>tracingEnabled := True,
                                   tracingFilename := ''foo.xt''\<rparr>),
           calls = [Start]\<rparr>\<rparr>)
   \<and> fst (xdebug_start_trace sample_config sample_env (VStr ''bar'') 0
            (fresh_world\<lparr>s_profiler_factory := \<lparr>m_profiler = OtherProfiler, calls = []\<rparr>\<rparr>))
     = Inl CouldNotStartProfiler"
proof -
  let ?wt = "fresh_world\<lparr>m_profiler_attached := True,
        s_profiler_factory :=
          \<lparr>m_profiler = XDebug (new_XDebugProfiler\<lparr>tracingEnabled := True,
                                   tracingFilename := ''foo.xt''\<rparr>),
           calls = [Start]\<rparr>\<rparr>"
  let ?wb = "fresh_world\<lparr>s_profiler_factory := \<lparr>m_profiler = OtherProfiler, calls = []\<rparr>\<rparr>"
  have wt: "well_formed ?wt" by (simp add: well_formed_def)
  have tr: "tracing ?wt" by (simp add: tracing_def isTracing_def)
  have wb: "well_formed ?wb" by (simp add: well_formed_def fresh_world_def)
  have busy: "\<not> m_profiler_attached ?wb \<and> m_profiler (s_profiler_factory ?wb) \<noteq> NoProfiler"
    by (simp add: fresh_world_def)
  show ?thesis
    using start_trace_when_already_tracing [OF wt, of sample_config sample_env "VStr ''bar''" 0]
          start_trace_when_already_tracing [OF wb, of sample_config sample_env "VStr ''bar''" 0]
          tr busy
    by auto
qed

text \<open>
  C10. A trace-file argument that is not a string makes \<^verbatim>\<open>xdebug_start_trace\<close> behave
  as it does on null; and when the call starts a trace (a well-formed state, with a
  profiler attached that is not tracing, or with none attached, a free factory and no
  automatic tracing asked for), the value returned is the path resolved from the configured
  trace output directory and trace output name. That path is what \<^verbatim>\<open>start_tracing\<close> hands
  to the profiler, together with the merged options.
\<close>

theorem start_trace_non_string_uses_defaults:
  assumes "\<not> isString v"
  shows "xdebug_start_trace cfg e v options w = xdebug_start_trace cfg e VNull options w
       \<and> (well_formed w \<and>
           (if m_profiler_attached w then \<not> tracing w
            else m_profiler (s_profiler_factory w) = NoProfiler \<and> \<not> isTracingNeeded cfg e) \<longrightarrow>
           fst (xdebug_start_trace cfg e v options w) =
             Inr (VStr (fst (format_filename e
                    (rand_calls (if m_profiler_attached w then w
                                 else snd (attach_xdebug_profiler cfg e w)))
                    (Some (TraceOutputDir cfg)) (TraceOutputName cfg)
                    (trace_options cfg options AND k_XDEBUG_TRACE_NAKED_FILENAME (bits cfg) = 0)))))
       \<and> start_tracing cfg e (p, n) (if isString v then Some (toString v) else None) options =
           (enableTracing
              (fst (format_filename e n (Some (TraceOutputDir cfg)) (TraceOutputName cfg)
                 (trace_options cfg options AND k_XDEBUG_TRACE_NAKED_FILENAME (bits cfg) = 0)))
              (trace_options cfg options) p,
            snd (format_filename e n (Some (TraceOutputDir cfg)) (TraceOutputName cfg)
                 (trace_options cfg options AND k_XDEBUG_TRACE_NAKED_FILENAME (bits cfg) = 0)))"
proof (intro conjI impI)
  show "xdebug_start_trace cfg e v options w = xdebug_start_trace cfg e VNull options w"
    using assms by (simp add: xdebug_start_trace_def)
next
  show "start_tracing cfg e (p, n) (if isString v then Some (toString v) else None) options =
           (enableTracing
              (fst (format_filename e n (Some (TraceOutputDir cfg)) (TraceOutputName cfg)
                 (trace_options cfg options AND k_XDEBUG_TRACE_NAKED_FILENAME (bits cfg) = 0)))
              (trace_options cfg options) p,
            snd (format_filename e n (Some (TraceOutputDir cfg)) (TraceOutputName cfg)
                 (trace_options cfg options AND k_XDEBUG_TRACE_NAKED_FILENAME (bits cfg) = 0)))"
    using assms by (simp add: start_tracing_def Let_def split_beta)
next
  assume h: "well_formed w \<and>
           (if m_profiler_attached w then \<not> tracing w
            else m_profiler (s_profiler_factory w) = NoProfiler \<and> \<not> isTracingNeeded cfg e)"
  let ?w0 = "if m_profiler_attached w then w else snd (attach_xdebug_profiler cfg e w)"
  have "\<exists>p. m_profiler_attached ?w0 \<and> m_profiler (s_profiler_factory ?w0) = XDebug p
           \<and> \<not> isTracing p
           \<and> xdebug_start_trace cfg e v options w = xdebug_start_trace cfg e v options ?w0"
  proof (cases "m_profiler_attached w")
    case True
    then show ?thesis
      using h well_formed_attached [of w] by (auto simp: tracing_def)
  next
    case False
    then have free: "m_profiler (s_profiler_factory w) = NoProfiler"
      and nt: "\<not> isTracingNeeded cfg e" using h by simp_all
    have att: "attach_xdebug_profiler cfg e w = (Inr (), snd (attach_xdebug_profiler cfg e w))"
      using attach_succeeds(1) [OF False free, of cfg e] by (simp add: prod_eq_iff)
    show ?thesis
      using False attach_succeeds(2,4) [OF False free, of cfg e] nt
        start_trace_detached [OF False att attach_succeeds(2) [OF False free], of v options]
      by auto
  qed
  then obtain p where a0: "m_profiler_attached ?w0"
    and p: "m_profiler (s_profiler_factory ?w0) = XDebug p" and np: "\<not> isTracing p"
    and eq: "xdebug_start_trace cfg e v options w = xdebug_start_trace cfg e v options ?w0"
    by blast
  show "fst (xdebug_start_trace cfg e v options w) =
             Inr (VStr (fst (format_filename e (rand_calls ?w0)
                    (Some (TraceOutputDir cfg)) (TraceOutputName cfg)
                    (trace_options cfg options AND k_XDEBUG_TRACE_NAKED_FILENAME (bits cfg) = 0))))"
    unfolding eq start_trace_from_idle [OF a0 p np]
    using assms by (simp add: start_tracing_result [OF np] Let_def)
qed


theorem start_trace_non_string_uses_defaults_witness:
  "xdebug_start_trace sample_config sample_env (VInt 5) 0 fresh_world
     = xdebug_start_trace sample_config sample_env VNull 0 fresh_world
   \<and> fst (xdebug_start_trace sample_config sample_env (VInt 5) 0 fresh_world)
     = Inr (VStr ''/tmp/trace.42.xt'')"
proof -
  have ns: "\<not> isString (VInt 5)" by simp
  have wf: "well_formed fresh_world" by (simp add: well_formed_def fresh_world_def)
  have idle: "if m_profiler_attached fresh_world then \<not> tracing fresh_world
     else m_profiler (s_profiler_factory fresh_world) = NoProfiler
          \<and> \<not> isTracingNeeded sample_config sample_env"
    by (simp add: fresh_world_def isTracingNeeded_def sample_config_def)
  have path: "fst (format_filename sample_env
                 (rand_calls (if m_profiler_attached fresh_world then fresh_world
                    else snd (attach_xdebug_profiler sample_config sample_env fresh_world)))
                 (Some (TraceOutputDir sample_config)) (TraceOutputName sample_config)
                 (trace_options sample_config 0
                    AND k_XDEBUG_TRACE_NAKED_FILENAME (bits sample_config) = 0))
              = ''/tmp/trace.42.xt''"
    by (simp add: format_filename_def trace_options_def sample_config_def sample_env_def
          directive.simps show_int_def show_nat.simps)
  note t = start_trace_non_string_uses_defaults
    [OF ns, where cfg = sample_config and e = sample_env and options = 0 and w = fresh_world]
  have "fst (xdebug_start_trace sample_config sample_env (VInt 5) 0 fresh_world)
          = Inr (VStr ''/tmp/trace.42.xt'')"
    using t [THEN conjunct2, THEN conjunct1, THEN mp, OF conjI [OF wf idle]] unfolding path .
  then show ?thesis using t [THEN conjunct1] by (rule conjI [rotated])
qed

text \<open>
  C2 (as amended). From a well-formed state with a profiler attached that is not
  tracing, or with no profiler attached when the factory can bind one and the configuration
  does not ask for automatic tracing, \<^verbatim>\<open>xdebug_start_trace\<close> with a file name \<open>f\<close> and
  options zero returns the path resolved from \<open>f\<close> with no directory; \<^verbatim>\<open>xdebug_stop_trace\<close>
  right after returns the same path, and then no trace is running and
  \<^verbatim>\<open>xdebug_get_tracefile_name\<close> is false. In a well-formed state with no trace running,
  \<^verbatim>\<open>xdebug_stop_trace\<close> returns false and leaves the state as it was.
\<close>

theorem start_stop_trace_round_trip:
  assumes "well_formed w"
      and "if m_profiler_attached w then \<not> tracing w
           else m_profiler (s_profiler_factory w) = NoProfiler \<and> \<not> isTracingNeeded cfg e"
      and "path = fst (format_filename e
                    (rand_calls (if m_profiler_attached w then w
                                 else snd (attach_xdebug_profiler cfg e w)))
                    None f
                    (trace_options cfg 0 AND k_XDEBUG_TRACE_NAKED_FILENAME (bits cfg) = 0))"
      and "started = xdebug_start_trace cfg e (VStr f) 0 w"
      and "stopped = xdebug_stop_trace (snd started)"
  shows "fst started = Inr (VStr path)
       \<and> fst stopped = Inr (VStr path)
       \<and> \<not> tracing (snd stopped)
       \<and> xdebug_get_tracefile_name (snd stopped) = Inr (VBool False)
       \<and> (well_formed w' \<and> \<not> tracing w' \<longrightarrow> xdebug_stop_trace w' = (Inr (VBool False), w'))"
proof -
  let ?w0 = "if m_profiler_attached w then w else snd (attach_xdebug_profiler cfg e w)"
  have "\<exists>p. m_profiler_attached ?w0 \<and> m_profiler (s_profiler_factory ?w0) = XDebug p
           \<and> \<not> isTracing p
           \<and> xdebug_start_trace cfg e (VStr f) 0 w = xdebug_start_trace cfg e (VStr f) 0 ?w0"
  proof (cases "m_profiler_attached w")
    case True
    then show ?thesis
      using assms(1,2) well_formed_attached [of w] by (auto simp: tracing_def)
  next
    case False
    then have free: "m_profiler (s_profiler_factory w) = NoProfiler"
      and nt: "\<not> isTracingNeeded cfg e" using assms(2) by simp_all
    have att: "attach_xdebug_profiler cfg e w = (Inr (), snd (attach_xdebug_profiler cfg e w))"
      using attach_succeeds(1) [OF False free, of cfg e] by (simp add: prod_eq_iff)
    show ?thesis
      using False attach_succeeds(2,4) [OF False free, of cfg e] nt
        start_trace_detached [OF False att attach_succeeds(2) [OF False free], of "VStr f" 0]
      by auto
  qed
  then obtain p where a0: "m_profiler_attached ?w0"
    and p: "m_profiler (s_profiler_factory ?w0) = XDebug p" and np: "\<not> isTracing p"
    and eq: "xdebug_start_trace cfg e (VStr f) 0 w = xdebug_start_trace cfg e (VStr f) 0 ?w0"
    by blast
  define q where "q = beginFrame (fst (start_tracing cfg e (p, rand_calls ?w0) (Some f) 0))"
  define w1 where
    "w1 = set_profiler q
            (?w0\<lparr>rand_calls := snd (start_tracing cfg e (p, rand_calls ?w0) (Some f) 0)\<rparr>)"
  have st: "started = (Inr (VStr path), w1)"
    unfolding assms(4) eq start_trace_from_idle [OF a0 p np]
    by (simp add: start_tracing_result [OF np] Let_def assms(3) w1_def q_def)
  have a1: "m_profiler_attached w1" using a0 by (simp add: w1_def set_profiler_def)
  have p1: "m_profiler (s_profiler_factory w1) = XDebug q"
    by (simp add: w1_def set_profiler_def)
  have t1: "isTracing q" by (simp add: q_def isTracing_def beginFrame_def)
  have f1: "tracingFilename q = path"
    by (simp add: q_def beginFrame_def start_tracing_result [OF np] Let_def assms(3))
  have s1: "snd started = w1" by (simp add: st)
  show ?thesis
    using stop_trace_tracing [OF a1 p1 t1] stop_trace_not_tracing [of w']
    by (simp add: st assms(5) f1)
qed

theorem start_stop_trace_round_trip_witness:
  "fst (xdebug_start_trace sample_config sample_env (VStr ''foo'') 0 fresh_world)
     = Inr (VStr ''foo.xt'')
   \<and> fst (xdebug_stop_trace
            (snd (xdebug_start_trace sample_config sample_env (VStr ''foo'') 0 fresh_world)))
     = Inr (VStr ''foo.xt'')
   \<and> xdebug_stop_trace fresh_world = (Inr (VBool False), fresh_world)"
proof -
  have wf: "well_formed fresh_world" by (simp add: well_formed_def fresh_world_def)
  have nt: "\<not> tracing fresh_world" by (simp add: tracing_def fresh_world_def)
  have idle: "if m_profiler_attached fresh_world then \<not> tracing fresh_world
     else m_profiler (s_profiler_factory fresh_world) = NoProfiler
          \<and> \<not> isTracingNeeded sample_config sample_env"
    by (simp add: fresh_world_def isTracingNeeded_def sample_config_def)
  have path: "fst (format_filename sample_env
                 (rand_calls (if m_profiler_attached fresh_world then fresh_world
                    else snd (attach_xdebug_profiler sample_config sample_env fresh_world)))
                 None ''foo''
                 (trace_options sample_config 0
                    AND k_XDEBUG_TRACE_NAKED_FILENAME (bits sample_config) = 0)) = ''foo.xt''"
    by (simp add: format_filename_def trace_options_def sample_config_def)
  show ?thesis
    using start_stop_trace_round_trip [OF wf idle path [symmetric] refl refl, of fresh_world] wf nt
    by simp
qed

text \<open>
  C2 as stated fails from the detached state: when another profiler is bound to the
  thread the call raises the fatal error of \<^verbatim>\<open>attach_xdebug_profiler\<close>, and when the
  configuration asks for automatic tracing the attach starts a trace on the default path
  and the call returns false.
\<close>

theorem start_trace_round_trip_counterexample:
  "fst (xdebug_start_trace sample_config sample_env (VStr ''foo'') 0
          (fresh_world\<lparr>s_profiler_factory := \<lparr>m_profiler = OtherProfiler, calls = []\<rparr>\<rparr>))
     = Inl CouldNotStartProfiler
   \<and> fst (xdebug_start_trace (sample_config\<lparr>AutoTrace := True\<rparr>) sample_env
            (VStr ''foo'') 0 fresh_world)
     = Inr (VBool False)
   \<and> xdebug_get_tracefile_name
       (snd (xdebug_start_trace (sample_config\<lparr>AutoTrace := True\<rparr>) sample_env
              (VStr ''foo'') 0 fresh_world))
     = Inr (VStr ''/tmp/trace.42.xt'')"
proof (intro conjI)
  show "fst (xdebug_start_trace sample_config sample_env (VStr ''foo'') 0
          (fresh_world\<lparr>s_profiler_factory := \<lparr>m_profiler = OtherProfiler, calls = []\<rparr>\<rparr>))
     = Inl CouldNotStartProfiler"
    by (simp add: start_trace_attach_fails fresh_world_def)
next
  let ?cfg = "sample_config\<lparr>AutoTrace := True\<rparr>"
  let ?w0 = "snd (attach_xdebug_profiler ?cfg sample_env fresh_world)"
  have d: "\<not> m_profiler_attached fresh_world" by (simp add: fresh_world_def)
  have f: "m_profiler (s_profiler_factory fresh_world) = NoProfiler"
    by (simp add: fresh_world_def)
  have att: "attach_xdebug_profiler ?cfg sample_env fresh_world = (Inr (), ?w0)"
    using attach_succeeds(1) [OF d f, of ?cfg sample_env] by (simp add: prod_eq_iff)
  have a0: "m_profiler_attached ?w0" using attach_succeeds(2) [OF d f] .
  obtain p where p: "m_profiler (s_profiler_factory ?w0) = XDebug p" and t: "isTracing p"
    using attach_succeeds(4) [OF d f, of ?cfg sample_env] by (auto simp: isTracingNeeded_def)
  have eq: "xdebug_start_trace ?cfg sample_env (VStr ''foo'') 0 fresh_world = (Inr (VBool False), ?w0)"
    unfolding start_trace_detached [OF d att a0] by (rule start_trace_already_tracing [OF a0 p t])
  show "fst (xdebug_start_trace ?cfg sample_env (VStr ''foo'') 0 fresh_world) = Inr (VBool False)"
    by (simp add: eq)
  show "xdebug_get_tracefile_name (snd (xdebug_start_trace ?cfg sample_env (VStr ''foo'') 0 fresh_world))
     = Inr (VStr ''/tmp/trace.42.xt'')"
    unfolding eq
    by (simp add: xdebug_get_tracefile_name_def attach_xdebug_profiler_def fresh_world_def
       factory_start_def xdebug_profiler_def Let_def isProfilingNeeded_def isTracingNeeded_def
       sample_config_def sample_env_def isTriggerSet_def global_names array_get_def
       array_exists_def start_tracing_def trace_options_def format_filename_def
       directive.simps show_int_def show_nat.simps enableTracing_def new_XDebugProfiler_def
       set_profiler_def setCollectTime_def setCollectMemory_def isTracing_def
       getTracingFilename_def)
qed


section \<open>The attachment flag\<close>

lemma alternate_Start: "alternate cs \<Longrightarrow> \<not> bound_after cs \<Longrightarrow> alternate (Start # cs)"
  by (cases cs) (auto simp: bound_after_def)

lemma alternate_Stop: "alternate cs \<Longrightarrow> bound_after cs \<Longrightarrow> alternate (Stop # cs)"
  by (cases cs) (auto simp: bound_after_def)

lemma attach_keeps:
  assumes "flag_follows_calls w"
  shows "flag_follows_calls (snd (attach_xdebug_profiler cfg e w))"
proof (cases "\<not> m_profiler_attached w \<and> m_profiler (s_profiler_factory w) = NoProfiler")
  case True
  then have d: "\<not> m_profiler_attached w" and f: "m_profiler (s_profiler_factory w) = NoProfiler"
    by simp_all
  show ?thesis
    using assms d attach_succeeds(2,3,4) [OF d f, of cfg e]
    by (auto simp: flag_follows_calls_def well_formed_def bound_after_def alternate_Start)
next
  case False
  show ?thesis
  proof (cases "m_profiler_attached w")
    case True
    then show ?thesis using assms by (simp add: attach_xdebug_profiler_def)
  next
    case d: False
    then show ?thesis using False assms by (simp add: attach_fails)
  qed
qed

lemma detach_keeps:
  assumes "flag_follows_calls w"
  shows "flag_follows_calls (snd (detach_xdebug_profiler w))"
  using assms
  by (auto simp: detach_xdebug_profiler_def flag_follows_calls_def well_formed_def
        factory_stop_def alternate_Stop bound_after_def)

lemma detach_if_needed_keeps:
  assumes "flag_follows_calls w"
  shows "flag_follows_calls (snd (detach_xdebug_profiler_if_needed w))"
  using assms detach_keeps [OF assms]
  by (auto simp: detach_xdebug_profiler_if_needed_def split: sum.splits)

lemma set_profiler_keeps:
  "flag_follows_calls w \<Longrightarrow> m_profiler_attached w \<Longrightarrow>
   flag_follows_calls (set_profiler p (w\<lparr>rand_calls := n\<rparr>))"
  "flag_follows_calls w \<Longrightarrow> m_profiler_attached w \<Longrightarrow>
   flag_follows_calls (set_profiler p w)"
  by (simp_all add: flag_follows_calls_def well_formed_def set_profiler_def)

lemma start_trace_attached_keeps:
  assumes "flag_follows_calls w" and "m_profiler_attached w"
  shows "flag_follows_calls (snd (xdebug_start_trace cfg e v options w))"
proof -
  obtain p where p: "m_profiler (s_profiler_factory w) = XDebug p"
    using assms well_formed_attached by (auto simp: flag_follows_calls_def)
  show ?thesis
    by (cases "isTracing p")
       (simp_all add: start_trace_already_tracing [OF assms(2) p]
          start_trace_from_idle [OF assms(2) p] Let_def assms set_profiler_keeps)
qed

lemma start_trace_keeps:
  assumes "flag_follows_calls w"
  shows "flag_follows_calls (snd (xdebug_start_trace cfg e v options w))"
proof (cases "m_profiler_attached w")
  case True
  then show ?thesis using assms by (rule start_trace_attached_keeps [rotated])
next
  case False
  show ?thesis
  proof (cases "m_profiler (s_profiler_factory w) = NoProfiler")
    case free: True
    let ?w0 = "snd (attach_xdebug_profiler cfg e w)"
    have att: "attach_xdebug_profiler cfg e w = (Inr (), ?w0)"
      using attach_succeeds(1) [OF False free, of cfg e] by (simp add: prod_eq_iff)
    have a0: "m_profiler_attached ?w0" using attach_succeeds(2) [OF False free] .
    show ?thesis
      unfolding start_trace_detached [OF False att a0]
      using attach_keeps [OF assms] a0 by (rule start_trace_attached_keeps)
  next
    case busy: False
    then show ?thesis
      using False assms by (simp add: start_trace_attach_fails)
  qed
qed

lemma stop_trace_keeps:
  assumes "flag_follows_calls w"
  shows "flag_follows_calls (snd (xdebug_stop_trace w))"
proof (cases "tracing w")
  case False
  then show ?thesis
    using assms by (simp add: stop_trace_not_tracing flag_follows_calls_def)
next
  case True
  then obtain p where a: "m_profiler_attached w"
    and p: "m_profiler (s_profiler_factory w) = XDebug p" and t: "isTracing p"
    by (auto simp: tracing_def split: bound_profiler.splits)
  obtain r w2 where d: "detach_xdebug_profiler_if_needed (set_profiler (disableTracing p) w) = (r, w2)"
    by (cases "detach_xdebug_profiler_if_needed (set_profiler (disableTracing p) w)")
  have "flag_follows_calls (snd (detach_xdebug_profiler_if_needed (set_profiler (disableTracing p) w)))"
    using assms a by (intro detach_if_needed_keeps set_profiler_keeps)
  then have "flag_follows_calls w2" by (simp add: d)
  then show ?thesis
    using a p t
    by (cases r) (simp_all add: xdebug_stop_trace_def xdebug_profiler_bound Let_def d)
qed

lemma request_shutdown_keeps:
  assumes "flag_follows_calls w"
  shows "flag_follows_calls (snd (XDebugExtension_requestShutdown cfg w))"
  using assms detach_keeps [OF assms] by (simp add: XDebugExtension_requestShutdown_def)

lemma perform_keeps:
  assumes "flag_follows_calls w"
  shows "flag_follows_calls (snd (perform cfg e op w))"
  using assms
  by (cases op)
     (simp_all add: attach_keeps detach_keeps detach_if_needed_keeps start_trace_keeps
        stop_trace_keeps request_shutdown_keeps drop_value_def split: sum.splits)

lemma run_keeps:
  "flag_follows_calls w \<Longrightarrow> flag_follows_calls (run cfg ops w)"
proof (induction ops arbitrary: w)
  case Nil
  then show ?case by simp
next
  case (Cons a ops)
  obtain e op where a: "a = (e, op)" by (cases a)
  obtain r w1 where p: "perform cfg e op w = (r, w1)" by (cases "perform cfg e op w")
  have "flag_follows_calls (snd (perform cfg e op w))"
    using Cons.prems by (rule perform_keeps)
  then have k: "flag_follows_calls w1" by (simp add: p)
  show ?case
    using k Cons.IH [OF k]
    by (simp add: a p split: sum.splits error.splits)
qed

lemma request_shutdown_detaches:
  "Enable cfg \<Longrightarrow> \<not> m_profiler_attached (snd (XDebugExtension_requestShutdown cfg w))"
  by (simp add: XDebugExtension_requestShutdown_def detach_xdebug_profiler_def)

text \<open>
  C1. After any run of attach, detach, detach-if-needed, start-trace, stop-trace and
  request shutdown from a state with the flag clear and no factory call made, the flag
  \<open>m_profiler_attached\<close> is set exactly when the newest factory call is a successful
  start, the successful starts and the stops alternate, and a request shutdown with the
  extension enabled leaves the flag clear.
\<close>

theorem attached_flag_follows_factory_calls:
  assumes "\<not> m_profiler_attached w0" and "calls (s_profiler_factory w0) = []"
  shows "m_profiler_attached (run cfg ops w0)
           = bound_after (calls (s_profiler_factory (run cfg ops w0)))
       \<and> alternate (calls (s_profiler_factory (run cfg ops w0)))
       \<and> (Enable cfg \<longrightarrow> \<not> m_profiler_attached (snd (XDebugExtension_requestShutdown cfg (run cfg ops w0))))"
proof -
  have "flag_follows_calls w0"
    using assms by (simp add: flag_follows_calls_def well_formed_def bound_after_def)
  then have "flag_follows_calls (run cfg ops w0)" by (rule run_keeps)
  then show ?thesis
    by (simp add: flag_follows_calls_def request_shutdown_detaches)
qed


theorem attached_flag_follows_factory_calls_witness:
  "calls (s_profiler_factory
      (run sample_config
         [(sample_env, StartTrace (VStr ''foo'') 0), (sample_env, StopTrace),
          (sample_env, Attach), (sample_env, RequestShutdown)] fresh_world))
     = [Stop, Start, Stop, Start]
   \<and> \<not> m_profiler_attached
      (run sample_config
         [(sample_env, StartTrace (VStr ''foo'') 0), (sample_env, StopTrace),
          (sample_env, Attach), (sample_env, RequestShutdown)] fresh_world)
   \<and> m_profiler_attached
      (run sample_config
         [(sample_env, StartTrace (VStr ''foo'') 0), (sample_env, StopTrace),
          (sample_env, Attach)] fresh_world)"
proof -
  have d: "\<not> m_profiler_attached fresh_world" by (simp add: fresh_world_def)
  have c: "calls (s_profiler_factory fresh_world) = []" by (simp add: fresh_world_def)
  have 1: "calls (s_profiler_factory
      (run sample_config
         [(sample_env, StartTrace (VStr ''foo'') 0), (sample_env, StopTrace),
          (sample_env, Attach), (sample_env, RequestShutdown)] fresh_world))
     = [Stop, Start, Stop, Start]"
    by (simp add: sample_evaluation drop_value_def)
  have 2: "calls (s_profiler_factory
      (run sample_config
         [(sample_env, StartTrace (VStr ''foo'') 0), (sample_env, StopTrace),
          (sample_env, Attach)] fresh_world))
     = [Start, Stop, Start]"
    by (simp add: sample_evaluation drop_value_def)
  note t1 = attached_flag_follows_factory_calls [OF d c, of sample_config
            "[(sample_env, StartTrace (VStr ''foo'') 0), (sample_env, StopTrace),
              (sample_env, Attach), (sample_env, RequestShutdown)]"]
  note t2 = attached_flag_follows_factory_calls [OF d c, of sample_config
            "[(sample_env, StartTrace (VStr ''foo'') 0), (sample_env, StopTrace),
              (sample_env, Attach)]"]
  show ?thesis
    unfolding t1 [THEN conjunct1] t2 [THEN conjunct1] 1 2
    by (simp add: bound_after_def)
qed

end
